theory Spec2Isabelle
  imports Main
begin

section \<open>The configuration bundle of the retrieval agent\<close>

text \<open>
  Embedding of \<^verbatim>\<open>src/retrieval_graph/configuration.py\<close>: the two dataclasses
  \<^verbatim>\<open>IndexConfiguration\<close> and \<^verbatim>\<open>Configuration(IndexConfiguration)\<close> and their
  \<^verbatim>\<open>__post_init__\<close> methods.

  \<^item> The process environment \<^verbatim>\<open>os.environ\<close> is an explicit argument, a map from
    variable names to strings.
  \<^item> A dataclass is a record; the subclass is a record extension, so the base class's
    \<^verbatim>\<open>__post_init__\<close> runs unchanged on an object of the subclass.
  \<^item> Both classes are \<^verbatim>\<open>kw_only\<close> with a default for every field, so a call of
    the constructor is a record of optional keyword arguments (\<open>None\<close>: the keyword is
    omitted).
  \<^item> \<^verbatim>\<open>dict[str, Any]\<close> is a map from strings to values of an arbitrary type \<open>'v\<close>.
\<close>

subsection \<open>The environment\<close>

type_synonym environ = "string \<rightharpoonup> string"

text \<open>\<^verbatim>\<open>os.environ.get(key, default)\<close>\<close>

definition environ_get :: "environ \<Rightarrow> string \<Rightarrow> string \<Rightarrow> string" where
  "environ_get env key dflt = (case env key of Some v \<Rightarrow> v | None \<Rightarrow> dflt)"

subsection \<open>The prompt constants\<close>

text \<open>
  The module \<^verbatim>\<open>retrieval_graph.prompts\<close> is not among the sources. Its two constants
  \<^verbatim>\<open>RESPONSE_SYSTEM_PROMPT\<close> and \<^verbatim>\<open>QUERY_SYSTEM_PROMPT\<close> are only used as the
  defaults of two fields, so they are a parameter of the construction.
\<close>

record prompts =
  RESPONSE_SYSTEM_PROMPT :: string
  QUERY_SYSTEM_PROMPT :: string

subsection \<open>IndexConfiguration\<close>

record 'v IndexConfiguration =
  user_id :: string
  embedding_model :: string
  retriever_provider :: string
  search_kwargs :: "string \<rightharpoonup> 'v"

text \<open>The keyword arguments of a constructor call.\<close>

record 'v IndexConfiguration_kwargs =
  kw_user_id :: "string option"
  kw_embedding_model :: "string option"
  kw_retriever_provider :: "string option"
  kw_search_kwargs :: "(string \<rightharpoonup> 'v) option"

text \<open>
  The values of the \<^verbatim>\<open>Literal\<close> type annotating \<^verbatim>\<open>retriever_provider\<close>. The
  annotation is not enforced at run time, which is why the field is a string.
\<close>

definition retriever_provider_literals :: "string list" where
  "retriever_provider_literals = [''elastic'', ''elastic-local'', ''pinecone'', ''mongodb'']"

text \<open>
  The generated \<^verbatim>\<open>__init__\<close>, before it calls \<^verbatim>\<open>__post_init__\<close>: every field
  is the keyword argument, or the field's default (\<^verbatim>\<open>default_factory=dict\<close> gives the
  empty dictionary).
\<close>

definition IndexConfiguration_fields :: "'v IndexConfiguration_kwargs \<Rightarrow> 'v IndexConfiguration" where
  "IndexConfiguration_fields kw =
    \<lparr> user_id = (case kw_user_id kw of Some x \<Rightarrow> x | None \<Rightarrow> ''''),
      embedding_model =
        (case kw_embedding_model kw of Some x \<Rightarrow> x | None \<Rightarrow> ''openai/text-embedding-3-small''),
      retriever_provider =
        (case kw_retriever_provider kw of Some x \<Rightarrow> x | None \<Rightarrow> ''elastic''),
      search_kwargs = (case kw_search_kwargs kw of Some x \<Rightarrow> x | None \<Rightarrow> Map.empty) \<rparr>"

text \<open>\<^verbatim>\<open>IndexConfiguration.__post_init__\<close>; \<^verbatim>\<open>not self.user_id\<close> holds of the empty string only.\<close>

definition IndexConfiguration_post_init ::
  "environ \<Rightarrow> ('v, 'z) IndexConfiguration_scheme \<Rightarrow> ('v, 'z) IndexConfiguration_scheme" where
  "IndexConfiguration_post_init env self0 =
    (let self1 = (if user_id self0 = ''''
                  then self0\<lparr>user_id := environ_get env ''USER_ID'' ''''\<rparr>
                  else self0);
         self2 = (if embedding_model self1 = ''openai/text-embedding-3-small''
                  then self1\<lparr>embedding_model :=
                         environ_get env ''EMBEDDING_MODEL'' ''openai/text-embedding-3-small''\<rparr>
                  else self1);
         self3 = (if retriever_provider self2 = ''elastic''
                  then self2\<lparr>retriever_provider :=
                         environ_get env ''RETRIEVER_PROVIDER'' ''elastic''\<rparr>
                  else self2)
     in self3)"

text \<open>The constructor call \<^verbatim>\<open>IndexConfiguration(**kw)\<close> in the environment \<open>env\<close>.\<close>

definition IndexConfiguration_init ::
  "environ \<Rightarrow> 'v IndexConfiguration_kwargs \<Rightarrow> 'v IndexConfiguration" where
  "IndexConfiguration_init env kw = IndexConfiguration_post_init env (IndexConfiguration_fields kw)"

subsection \<open>Configuration\<close>

record 'v Configuration = "'v IndexConfiguration" +
  response_system_prompt :: string
  response_model :: string
  query_system_prompt :: string
  query_model :: string

record 'v Configuration_kwargs = "'v IndexConfiguration_kwargs" +
  kw_response_system_prompt :: "string option"
  kw_response_model :: "string option"
  kw_query_system_prompt :: "string option"
  kw_query_model :: "string option"

definition Configuration_fields :: "prompts \<Rightarrow> 'v Configuration_kwargs \<Rightarrow> 'v Configuration" where
  "Configuration_fields p kw =
    \<lparr> user_id = (case kw_user_id kw of Some x \<Rightarrow> x | None \<Rightarrow> ''''),
      embedding_model =
        (case kw_embedding_model kw of Some x \<Rightarrow> x | None \<Rightarrow> ''openai/text-embedding-3-small''),
      retriever_provider =
        (case kw_retriever_provider kw of Some x \<Rightarrow> x | None \<Rightarrow> ''elastic''),
      search_kwargs = (case kw_search_kwargs kw of Some x \<Rightarrow> x | None \<Rightarrow> Map.empty),
      response_system_prompt =
        (case kw_response_system_prompt kw of Some x \<Rightarrow> x | None \<Rightarrow> RESPONSE_SYSTEM_PROMPT p),
      response_model =
        (case kw_response_model kw of Some x \<Rightarrow> x
         | None \<Rightarrow> ''anthropic/claude-3-5-sonnet-20240620''),
      query_system_prompt =
        (case kw_query_system_prompt kw of Some x \<Rightarrow> x | None \<Rightarrow> QUERY_SYSTEM_PROMPT p),
      query_model =
        (case kw_query_model kw of Some x \<Rightarrow> x | None \<Rightarrow> ''anthropic/claude-3-haiku-20240307'') \<rparr>"

text \<open>\<^verbatim>\<open>Configuration.__post_init__\<close>: the parent's method first, then the two model names.\<close>

definition Configuration_post_init ::
  "environ \<Rightarrow> ('v, 'z) Configuration_scheme \<Rightarrow> ('v, 'z) Configuration_scheme" where
  "Configuration_post_init env self0 =
    (let self1 = IndexConfiguration_post_init env self0;
         self2 = (if response_model self1 = ''anthropic/claude-3-5-sonnet-20240620''
                  then self1\<lparr>response_model :=
                         environ_get env ''RESPONSE_MODEL'' ''anthropic/claude-3-5-sonnet-20240620''\<rparr>
                  else self1);
         self3 = (if query_model self2 = ''anthropic/claude-3-haiku-20240307''
                  then self2\<lparr>query_model :=
                         environ_get env ''QUERY_MODEL'' ''anthropic/claude-3-haiku-20240307''\<rparr>
                  else self2)
     in self3)"

text \<open>The constructor call \<^verbatim>\<open>Configuration(**kw)\<close> in the environment \<open>env\<close>.\<close>

definition Configuration_init ::
  "prompts \<Rightarrow> environ \<Rightarrow> 'v Configuration_kwargs \<Rightarrow> 'v Configuration" where
  "Configuration_init p env kw = Configuration_post_init env (Configuration_fields p kw)"

subsection \<open>Constructor calls and environments of the unit tests\<close>

text \<open>\<^verbatim>\<open>Configuration()\<close> and \<^verbatim>\<open>IndexConfiguration()\<close>: no keyword is given.\<close>

definition no_index_kwargs :: "'v IndexConfiguration_kwargs" where
  "no_index_kwargs =
    \<lparr> kw_user_id = None, kw_embedding_model = None, kw_retriever_provider = None,
      kw_search_kwargs = None \<rparr>"

definition no_kwargs :: "'v Configuration_kwargs" where
  "no_kwargs =
    \<lparr> kw_user_id = None, kw_embedding_model = None, kw_retriever_provider = None,
      kw_search_kwargs = None, kw_response_system_prompt = None, kw_response_model = None,
      kw_query_system_prompt = None, kw_query_model = None \<rparr>"

text \<open>The \<^verbatim>\<open>patch.dict\<close> of \<^verbatim>\<open>test_configuration_post_init_with_env_vars\<close>.\<close>

definition test_environ :: environ where
  "test_environ =
    [''USER_ID'' \<mapsto> ''env_user'', ''EMBEDDING_MODEL'' \<mapsto> ''cohere/embed-english-v3.0'',
     ''RETRIEVER_PROVIDER'' \<mapsto> ''mongodb'', ''RESPONSE_MODEL'' \<mapsto> ''openai/gpt-4'',
     ''QUERY_MODEL'' \<mapsto> ''openai/gpt-3.5-turbo'']"

text \<open>The \<^verbatim>\<open>patch.dict\<close> of \<^verbatim>\<open>test_index_configuration_post_init\<close>.\<close>

definition test_index_environ :: environ where
  "test_index_environ =
    [''USER_ID'' \<mapsto> ''index_user'', ''EMBEDDING_MODEL'' \<mapsto> ''cohere/embed-english-v3.0'',
     ''RETRIEVER_PROVIDER'' \<mapsto> ''mongodb'']"

subsection \<open>The precedence rule, in the words of the specification\<close>

text \<open>
  The specification's invariant, read literally: a field holds the explicit value when
  one is given, else the value of its environment variable when that is set, else the
  built-in default. This definition follows the specification, not the code; it is
  what the code is compared with.
\<close>

definition precedence_as_stated :: "string option \<Rightarrow> string option \<Rightarrow> string \<Rightarrow> string" where
  "precedence_as_stated explicit envv dflt =
    (case explicit of
       Some x \<Rightarrow> x
     | None \<Rightarrow> (case envv of Some v \<Rightarrow> v | None \<Rightarrow> dflt))"

text \<open>
  The same rule with the test the specification's own defaulting algorithm describes:
  an explicit value counts as given only when it differs from the built-in default.
\<close>

definition precedence_by_default_test :: "string option \<Rightarrow> string option \<Rightarrow> string \<Rightarrow> string" where
  "precedence_by_default_test explicit envv dflt =
    (case explicit of
       Some x \<Rightarrow> (if x = dflt then (case envv of Some v \<Rightarrow> v | None \<Rightarrow> dflt) else x)
     | None \<Rightarrow> (case envv of Some v \<Rightarrow> v | None \<Rightarrow> dflt))"

section \<open>Field by field: what the defaulting pass computes\<close>

lemma environ_get_Some: "env key = Some v \<Longrightarrow> environ_get env key dflt = v"
  by (simp add: environ_get_def)

lemma environ_get_None: "env key = None \<Longrightarrow> environ_get env key dflt = dflt"
  by (simp add: environ_get_def)

lemma index_post_init_user_id:
  "user_id (IndexConfiguration_post_init env self) =
     (if user_id self = '''' then environ_get env ''USER_ID'' '''' else user_id self)"
  by (simp add: IndexConfiguration_post_init_def Let_def)

lemma index_post_init_embedding_model:
  "embedding_model (IndexConfiguration_post_init env self) =
     (if embedding_model self = ''openai/text-embedding-3-small''
      then environ_get env ''EMBEDDING_MODEL'' ''openai/text-embedding-3-small''
      else embedding_model self)"
  by (simp add: IndexConfiguration_post_init_def Let_def)

lemma index_post_init_retriever_provider:
  "retriever_provider (IndexConfiguration_post_init env self) =
     (if retriever_provider self = ''elastic''
      then environ_get env ''RETRIEVER_PROVIDER'' ''elastic''
      else retriever_provider self)"
  by (simp add: IndexConfiguration_post_init_def Let_def)

lemma index_post_init_search_kwargs:
  "search_kwargs (IndexConfiguration_post_init env self) = search_kwargs self"
  by (simp add: IndexConfiguration_post_init_def Let_def)

lemma config_post_init_base:
  "user_id (Configuration_post_init env self) = user_id (IndexConfiguration_post_init env self)"
  "embedding_model (Configuration_post_init env self) =
     embedding_model (IndexConfiguration_post_init env self)"
  "retriever_provider (Configuration_post_init env self) =
     retriever_provider (IndexConfiguration_post_init env self)"
  "search_kwargs (Configuration_post_init env self) =
     search_kwargs (IndexConfiguration_post_init env self)"
  by (simp_all add: Configuration_post_init_def Let_def)

lemma index_post_init_sub_fields:
  "response_system_prompt (IndexConfiguration_post_init env self) = response_system_prompt self"
  "response_model (IndexConfiguration_post_init env self) = response_model self"
  "query_system_prompt (IndexConfiguration_post_init env self) = query_system_prompt self"
  "query_model (IndexConfiguration_post_init env self) = query_model self"
  by (simp_all add: IndexConfiguration_post_init_def Let_def)

lemma config_post_init_response_model:
  "response_model (Configuration_post_init env self) =
     (if response_model self = ''anthropic/claude-3-5-sonnet-20240620''
      then environ_get env ''RESPONSE_MODEL'' ''anthropic/claude-3-5-sonnet-20240620''
      else response_model self)"
  by (simp add: Configuration_post_init_def Let_def index_post_init_sub_fields)

lemma config_post_init_query_model:
  "query_model (Configuration_post_init env self) =
     (if query_model self = ''anthropic/claude-3-haiku-20240307''
      then environ_get env ''QUERY_MODEL'' ''anthropic/claude-3-haiku-20240307''
      else query_model self)"
  by (simp add: Configuration_post_init_def Let_def index_post_init_sub_fields)

lemma config_post_init_prompts:
  "response_system_prompt (Configuration_post_init env self) = response_system_prompt self"
  "query_system_prompt (Configuration_post_init env self) = query_system_prompt self"
  by (simp_all add: Configuration_post_init_def Let_def index_post_init_sub_fields)

lemmas post_init_fields =
  index_post_init_user_id index_post_init_embedding_model index_post_init_retriever_provider
  index_post_init_search_kwargs config_post_init_base config_post_init_response_model
  config_post_init_query_model config_post_init_prompts

section \<open>The claims\<close>

text \<open>
  C1. When all five environment-bound fields are supplied explicitly, each with a string
  other than its built-in default (a non-empty \<open>user_id\<close>), the constructed
  \<open>Configuration\<close> holds exactly the supplied strings, whatever the environment.
\<close>

theorem explicit_non_default_values_win:
  assumes "kw_user_id kw = Some u" and "u \<noteq> ''''"
    and "kw_embedding_model kw = Some e" and "e \<noteq> ''openai/text-embedding-3-small''"
    and "kw_retriever_provider kw = Some r" and "r \<noteq> ''elastic''"
    and "kw_response_model kw = Some rm" and "rm \<noteq> ''anthropic/claude-3-5-sonnet-20240620''"
    and "kw_query_model kw = Some qm" and "qm \<noteq> ''anthropic/claude-3-haiku-20240307''"
  shows "user_id (Configuration_init p env kw) = u
       \<and> embedding_model (Configuration_init p env kw) = e
       \<and> retriever_provider (Configuration_init p env kw) = r
       \<and> response_model (Configuration_init p env kw) = rm
       \<and> query_model (Configuration_init p env kw) = qm"
  using assms by (simp add: Configuration_init_def Configuration_fields_def post_init_fields)

theorem explicit_non_default_values_win_witness:
  "(let kw = \<lparr>kw_user_id = Some ''explicit_user'',
       kw_embedding_model = Some ''openai/text-embedding-ada-002'',
       kw_retriever_provider = Some ''pinecone'',
       kw_search_kwargs = (None :: (string \<rightharpoonup> nat) option),
       kw_response_system_prompt = None,
       kw_response_model = Some ''anthropic/claude-3-opus-20240229'',
       kw_query_system_prompt = None,
       kw_query_model = Some ''anthropic/claude-3-sonnet-20240229''\<rparr>;
     c = Configuration_init
      \<lparr>RESPONSE_SYSTEM_PROMPT = ''answer'', QUERY_SYSTEM_PROMPT = ''refine''\<rparr>
      [''USER_ID'' \<mapsto> ''env_user'', ''EMBEDDING_MODEL'' \<mapsto> ''cohere/embed-english-v3.0'',
       ''RETRIEVER_PROVIDER'' \<mapsto> ''mongodb'', ''RESPONSE_MODEL'' \<mapsto> ''openai/gpt-4'',
       ''QUERY_MODEL'' \<mapsto> ''openai/gpt-3.5-turbo''] kw
   in kw_user_id kw = Some ''explicit_user'' \<and> ''explicit_user'' \<noteq> ''''
    \<and> kw_embedding_model kw = Some ''openai/text-embedding-ada-002''
    \<and> ''openai/text-embedding-ada-002'' \<noteq> ''openai/text-embedding-3-small''
    \<and> kw_retriever_provider kw = Some ''pinecone'' \<and> ''pinecone'' \<noteq> ''elastic''
    \<and> kw_response_model kw = Some ''anthropic/claude-3-opus-20240229''
    \<and> ''anthropic/claude-3-opus-20240229'' \<noteq> ''anthropic/claude-3-5-sonnet-20240620''
    \<and> kw_query_model kw = Some ''anthropic/claude-3-sonnet-20240229''
    \<and> ''anthropic/claude-3-sonnet-20240229'' \<noteq> ''anthropic/claude-3-haiku-20240307''
    \<and> user_id c = ''explicit_user''
    \<and> embedding_model c = ''openai/text-embedding-ada-002''
    \<and> retriever_provider c = ''pinecone''
    \<and> response_model c = ''anthropic/claude-3-opus-20240229''
    \<and> query_model c = ''anthropic/claude-3-sonnet-20240229'')"
  using explicit_non_default_values_win
    [of "\<lparr>kw_user_id = Some ''explicit_user'',
       kw_embedding_model = Some ''openai/text-embedding-ada-002'',
       kw_retriever_provider = Some ''pinecone'',
       kw_search_kwargs = (None :: (string \<rightharpoonup> nat) option),
       kw_response_system_prompt = None,
       kw_response_model = Some ''anthropic/claude-3-opus-20240229'',
       kw_query_system_prompt = None,
       kw_query_model = Some ''anthropic/claude-3-sonnet-20240229''\<rparr>"
      "''explicit_user''" "''openai/text-embedding-ada-002''" "''pinecone''"
      "''anthropic/claude-3-opus-20240229''" "''anthropic/claude-3-sonnet-20240229''"
      "\<lparr>RESPONSE_SYSTEM_PROMPT = ''answer'', QUERY_SYSTEM_PROMPT = ''refine''\<rparr>"
      "[''USER_ID'' \<mapsto> ''env_user'', ''EMBEDDING_MODEL'' \<mapsto> ''cohere/embed-english-v3.0'',
       ''RETRIEVER_PROVIDER'' \<mapsto> ''mongodb'', ''RESPONSE_MODEL'' \<mapsto> ''openai/gpt-4'',
       ''QUERY_MODEL'' \<mapsto> ''openai/gpt-3.5-turbo'']"]
  by (simp add: Let_def)

text \<open>
  C2. In an environment that sets all of \<^verbatim>\<open>USER_ID\<close>, \<^verbatim>\<open>EMBEDDING_MODEL\<close>,
  \<^verbatim>\<open>RETRIEVER_PROVIDER\<close>, \<^verbatim>\<open>RESPONSE_MODEL\<close> and \<^verbatim>\<open>QUERY_MODEL\<close>, the call
  \<^verbatim>\<open>Configuration()\<close> with no explicit field yields each of the five fields equal
  to the value of its environment variable.
\<close>

theorem environment_fills_omitted_fields:
  assumes "env ''USER_ID'' = Some u"
    and "env ''EMBEDDING_MODEL'' = Some e"
    and "env ''RETRIEVER_PROVIDER'' = Some r"
    and "env ''RESPONSE_MODEL'' = Some rm"
    and "env ''QUERY_MODEL'' = Some qm"
  shows "user_id (Configuration_init p env (no_kwargs :: 'v Configuration_kwargs)) = u
       \<and> embedding_model (Configuration_init p env no_kwargs) = e
       \<and> retriever_provider (Configuration_init p env no_kwargs) = r
       \<and> response_model (Configuration_init p env no_kwargs) = rm
       \<and> query_model (Configuration_init p env no_kwargs) = qm"
  using assms
  by (simp add: Configuration_init_def Configuration_fields_def no_kwargs_def post_init_fields
        environ_get_Some)

theorem environment_fills_omitted_fields_witness:
  "(let c = Configuration_init
              \<lparr>RESPONSE_SYSTEM_PROMPT = ''answer'', QUERY_SYSTEM_PROMPT = ''refine''\<rparr>
              test_environ (no_kwargs :: nat Configuration_kwargs)
    in test_environ ''USER_ID'' = Some ''env_user''
     \<and> test_environ ''EMBEDDING_MODEL'' = Some ''cohere/embed-english-v3.0''
     \<and> test_environ ''RETRIEVER_PROVIDER'' = Some ''mongodb''
     \<and> test_environ ''RESPONSE_MODEL'' = Some ''openai/gpt-4''
     \<and> test_environ ''QUERY_MODEL'' = Some ''openai/gpt-3.5-turbo''
     \<and> user_id c = ''env_user''
     \<and> embedding_model c = ''cohere/embed-english-v3.0''
     \<and> retriever_provider c = ''mongodb''
     \<and> response_model c = ''openai/gpt-4''
     \<and> query_model c = ''openai/gpt-3.5-turbo'')"
proof -
  have h: "test_environ ''USER_ID'' = Some ''env_user''"
    "test_environ ''EMBEDDING_MODEL'' = Some ''cohere/embed-english-v3.0''"
    "test_environ ''RETRIEVER_PROVIDER'' = Some ''mongodb''"
    "test_environ ''RESPONSE_MODEL'' = Some ''openai/gpt-4''"
    "test_environ ''QUERY_MODEL'' = Some ''openai/gpt-3.5-turbo''"
    by (simp_all add: test_environ_def)
  show ?thesis
    unfolding Let_def
    using h environment_fills_omitted_fields [OF h,
        of "\<lparr>RESPONSE_SYSTEM_PROMPT = ''answer'', QUERY_SYSTEM_PROMPT = ''refine''\<rparr>",
        where ?'v = nat]
    by blast
qed

text \<open>
  C3. For each of the five environment-bound fields: when the field's environment
  variable is set and the caller passes a value equal to the field's built-in default
  literal, the constructed field is the value of the environment variable, and the
  whole object is the one obtained when the keyword is left out.
\<close>

theorem explicit_default_is_overridden:
  "(env ''USER_ID'' = Some vu \<and> kw_user_id kw = Some '''' \<longrightarrow>
      user_id (Configuration_init p env kw) = vu
    \<and> Configuration_init p env kw = Configuration_init p env (kw\<lparr>kw_user_id := None\<rparr>))
 \<and> (env ''EMBEDDING_MODEL'' = Some ve
      \<and> kw_embedding_model kw = Some ''openai/text-embedding-3-small'' \<longrightarrow>
      embedding_model (Configuration_init p env kw) = ve
    \<and> Configuration_init p env kw = Configuration_init p env (kw\<lparr>kw_embedding_model := None\<rparr>))
 \<and> (env ''RETRIEVER_PROVIDER'' = Some vr \<and> kw_retriever_provider kw = Some ''elastic'' \<longrightarrow>
      retriever_provider (Configuration_init p env kw) = vr
    \<and> Configuration_init p env kw = Configuration_init p env (kw\<lparr>kw_retriever_provider := None\<rparr>))
 \<and> (env ''RESPONSE_MODEL'' = Some vrm
      \<and> kw_response_model kw = Some ''anthropic/claude-3-5-sonnet-20240620'' \<longrightarrow>
      response_model (Configuration_init p env kw) = vrm
    \<and> Configuration_init p env kw = Configuration_init p env (kw\<lparr>kw_response_model := None\<rparr>))
 \<and> (env ''QUERY_MODEL'' = Some vq
      \<and> kw_query_model kw = Some ''anthropic/claude-3-haiku-20240307'' \<longrightarrow>
      query_model (Configuration_init p env kw) = vq
    \<and> Configuration_init p env kw = Configuration_init p env (kw\<lparr>kw_query_model := None\<rparr>))"
  by (simp add: Configuration_init_def Configuration_fields_def post_init_fields environ_get_Some)

theorem explicit_default_is_overridden_witness:
  "(let p = \<lparr>RESPONSE_SYSTEM_PROMPT = ''answer'', QUERY_SYSTEM_PROMPT = ''refine''\<rparr>;
        kw = \<lparr>kw_user_id = Some '''',
              kw_embedding_model = Some ''openai/text-embedding-3-small'',
              kw_retriever_provider = Some ''elastic'',
              kw_search_kwargs = (None :: (string \<rightharpoonup> nat) option),
              kw_response_system_prompt = None,
              kw_response_model = Some ''anthropic/claude-3-5-sonnet-20240620'',
              kw_query_system_prompt = None,
              kw_query_model = Some ''anthropic/claude-3-haiku-20240307''\<rparr>;
        c = Configuration_init p test_environ kw
    in test_environ ''USER_ID'' = Some ''env_user'' \<and> kw_user_id kw = Some ''''
     \<and> test_environ ''EMBEDDING_MODEL'' = Some ''cohere/embed-english-v3.0''
     \<and> kw_embedding_model kw = Some ''openai/text-embedding-3-small''
     \<and> test_environ ''RETRIEVER_PROVIDER'' = Some ''mongodb''
     \<and> kw_retriever_provider kw = Some ''elastic''
     \<and> test_environ ''RESPONSE_MODEL'' = Some ''openai/gpt-4''
     \<and> kw_response_model kw = Some ''anthropic/claude-3-5-sonnet-20240620''
     \<and> test_environ ''QUERY_MODEL'' = Some ''openai/gpt-3.5-turbo''
     \<and> kw_query_model kw = Some ''anthropic/claude-3-haiku-20240307''
     \<and> user_id c = ''env_user''
     \<and> embedding_model c = ''cohere/embed-english-v3.0''
     \<and> retriever_provider c = ''mongodb''
     \<and> response_model c = ''openai/gpt-4''
     \<and> query_model c = ''openai/gpt-3.5-turbo''
     \<and> c = Configuration_init p test_environ (kw\<lparr>kw_user_id := None\<rparr>)
     \<and> c = Configuration_init p test_environ (kw\<lparr>kw_embedding_model := None\<rparr>)
     \<and> c = Configuration_init p test_environ (kw\<lparr>kw_retriever_provider := None\<rparr>)
     \<and> c = Configuration_init p test_environ (kw\<lparr>kw_response_model := None\<rparr>)
     \<and> c = Configuration_init p test_environ (kw\<lparr>kw_query_model := None\<rparr>))"
proof -
  let ?p = "\<lparr>RESPONSE_SYSTEM_PROMPT = ''answer'', QUERY_SYSTEM_PROMPT = ''refine''\<rparr>"
  let ?kw = "\<lparr>kw_user_id = Some '''',
              kw_embedding_model = Some ''openai/text-embedding-3-small'',
              kw_retriever_provider = Some ''elastic'',
              kw_search_kwargs = (None :: (string \<rightharpoonup> nat) option),
              kw_response_system_prompt = None,
              kw_response_model = Some ''anthropic/claude-3-5-sonnet-20240620'',
              kw_query_system_prompt = None,
              kw_query_model = Some ''anthropic/claude-3-haiku-20240307''\<rparr>"
  have h: "test_environ ''USER_ID'' = Some ''env_user''"
    "test_environ ''EMBEDDING_MODEL'' = Some ''cohere/embed-english-v3.0''"
    "test_environ ''RETRIEVER_PROVIDER'' = Some ''mongodb''"
    "test_environ ''RESPONSE_MODEL'' = Some ''openai/gpt-4''"
    "test_environ ''QUERY_MODEL'' = Some ''openai/gpt-3.5-turbo''"
    by (simp_all add: test_environ_def)
  have k: "kw_user_id ?kw = Some ''''"
    "kw_embedding_model ?kw = Some ''openai/text-embedding-3-small''"
    "kw_retriever_provider ?kw = Some ''elastic''"
    "kw_response_model ?kw = Some ''anthropic/claude-3-5-sonnet-20240620''"
    "kw_query_model ?kw = Some ''anthropic/claude-3-haiku-20240307''"
    by simp_all
  show ?thesis
    unfolding Let_def
    using h k explicit_default_is_overridden
      [of test_environ "''env_user''" ?kw ?p "''cohere/embed-english-v3.0''" "''mongodb''"
          "''openai/gpt-4''" "''openai/gpt-3.5-turbo''"]
    by blast
qed

text \<open>
  C4. In an environment that sets none of the five variables, \<^verbatim>\<open>Configuration()\<close>
  with no explicit field yields exactly the built-in defaults.
\<close>

theorem defaults_without_environment:
  assumes "env ''USER_ID'' = None"
    and "env ''EMBEDDING_MODEL'' = None"
    and "env ''RETRIEVER_PROVIDER'' = None"
    and "env ''RESPONSE_MODEL'' = None"
    and "env ''QUERY_MODEL'' = None"
  shows "user_id (Configuration_init p env (no_kwargs :: 'v Configuration_kwargs)) = ''''
       \<and> embedding_model (Configuration_init p env no_kwargs) = ''openai/text-embedding-3-small''
       \<and> retriever_provider (Configuration_init p env no_kwargs) = ''elastic''
       \<and> response_model (Configuration_init p env no_kwargs)
           = ''anthropic/claude-3-5-sonnet-20240620''
       \<and> query_model (Configuration_init p env no_kwargs)
           = ''anthropic/claude-3-haiku-20240307''"
  using assms
  by (simp add: Configuration_init_def Configuration_fields_def no_kwargs_def post_init_fields
        environ_get_None)

theorem defaults_without_environment_witness:
  "(let env = [''HOME'' \<mapsto> ''/root'', ''LANG'' \<mapsto> ''C.UTF-8''];
        c = Configuration_init
              \<lparr>RESPONSE_SYSTEM_PROMPT = ''answer'', QUERY_SYSTEM_PROMPT = ''refine''\<rparr>
              env (no_kwargs :: nat Configuration_kwargs)
    in env ''USER_ID'' = None \<and> env ''EMBEDDING_MODEL'' = None
     \<and> env ''RETRIEVER_PROVIDER'' = None \<and> env ''RESPONSE_MODEL'' = None
     \<and> env ''QUERY_MODEL'' = None
     \<and> user_id c = ''''
     \<and> embedding_model c = ''openai/text-embedding-3-small''
     \<and> retriever_provider c = ''elastic''
     \<and> response_model c = ''anthropic/claude-3-5-sonnet-20240620''
     \<and> query_model c = ''anthropic/claude-3-haiku-20240307'')"
proof -
  have h: "[''HOME'' \<mapsto> ''/root'', ''LANG'' \<mapsto> ''C.UTF-8''] ''USER_ID'' = None"
    "[''HOME'' \<mapsto> ''/root'', ''LANG'' \<mapsto> ''C.UTF-8''] ''EMBEDDING_MODEL'' = None"
    "[''HOME'' \<mapsto> ''/root'', ''LANG'' \<mapsto> ''C.UTF-8''] ''RETRIEVER_PROVIDER'' = None"
    "[''HOME'' \<mapsto> ''/root'', ''LANG'' \<mapsto> ''C.UTF-8''] ''RESPONSE_MODEL'' = None"
    "[''HOME'' \<mapsto> ''/root'', ''LANG'' \<mapsto> ''C.UTF-8''] ''QUERY_MODEL'' = None"
    by simp_all
  show ?thesis
    unfolding Let_def
    using h defaults_without_environment [OF h,
        of "\<lparr>RESPONSE_SYSTEM_PROMPT = ''answer'', QUERY_SYSTEM_PROMPT = ''refine''\<rparr>",
        where ?'v = nat]
    by blast
qed

text \<open>
  C5. Every construction of either class resolves \<open>user_id\<close> as follows. The value
  the constructor stores is the keyword argument, or the empty string when the keyword
  is left out. When that value is empty, the constructed object's \<open>user_id\<close> is the
  value of \<^verbatim>\<open>USER_ID\<close> if the variable is set and the empty string otherwise; when
  it is not empty, it is kept unchanged. This is stated for the two constructor calls
  and for the two defaulting passes on an arbitrary object. Hence passing
  \<^verbatim>\<open>user_id=""\<close> builds the same object as leaving the keyword out.
\<close>

theorem user_id_rule:
  fixes self :: "'v IndexConfiguration" and cself :: "'v Configuration"
    and kw :: "'v IndexConfiguration_kwargs" and ckw :: "'v Configuration_kwargs"
  shows "user_id (IndexConfiguration_init env kw) =
           (case kw_user_id kw of
              None \<Rightarrow> (case env ''USER_ID'' of Some v \<Rightarrow> v | None \<Rightarrow> '''')
            | Some u \<Rightarrow>
                (if u = '''' then (case env ''USER_ID'' of Some v \<Rightarrow> v | None \<Rightarrow> '''')
                 else u))
       \<and> user_id (Configuration_init p env ckw) =
           (case kw_user_id ckw of
              None \<Rightarrow> (case env ''USER_ID'' of Some v \<Rightarrow> v | None \<Rightarrow> '''')
            | Some u \<Rightarrow>
                (if u = '''' then (case env ''USER_ID'' of Some v \<Rightarrow> v | None \<Rightarrow> '''')
                 else u))
       \<and> user_id (IndexConfiguration_post_init env self) =
           (if user_id self = ''''
            then (case env ''USER_ID'' of Some v \<Rightarrow> v | None \<Rightarrow> '''')
            else user_id self)
       \<and> user_id (Configuration_post_init env cself) =
           (if user_id cself = ''''
            then (case env ''USER_ID'' of Some v \<Rightarrow> v | None \<Rightarrow> '''')
            else user_id cself)
       \<and> IndexConfiguration_init env (kw\<lparr>kw_user_id := Some ''''\<rparr>) =
           IndexConfiguration_init env (kw\<lparr>kw_user_id := None\<rparr>)
       \<and> Configuration_init p env (ckw\<lparr>kw_user_id := Some ''''\<rparr>) =
           Configuration_init p env (ckw\<lparr>kw_user_id := None\<rparr>)"
proof -
  have at_index: "user_id (IndexConfiguration_init env kw) =
           (case kw_user_id kw of
              None \<Rightarrow> (case env ''USER_ID'' of Some v \<Rightarrow> v | None \<Rightarrow> '''')
            | Some u \<Rightarrow>
                (if u = '''' then (case env ''USER_ID'' of Some v \<Rightarrow> v | None \<Rightarrow> '''')
                 else u))"
    by (simp add: IndexConfiguration_init_def IndexConfiguration_fields_def
          index_post_init_user_id environ_get_def split: option.split)
  have at_config: "user_id (Configuration_init p env ckw) =
           (case kw_user_id ckw of
              None \<Rightarrow> (case env ''USER_ID'' of Some v \<Rightarrow> v | None \<Rightarrow> '''')
            | Some u \<Rightarrow>
                (if u = '''' then (case env ''USER_ID'' of Some v \<Rightarrow> v | None \<Rightarrow> '''')
                 else u))"
    by (simp add: Configuration_init_def Configuration_fields_def config_post_init_base
          index_post_init_user_id environ_get_def split: option.split)
  have passes: "user_id (IndexConfiguration_post_init env self) =
           (if user_id self = ''''
            then (case env ''USER_ID'' of Some v \<Rightarrow> v | None \<Rightarrow> '''')
            else user_id self)"
    "user_id (Configuration_post_init env cself) =
           (if user_id cself = ''''
            then (case env ''USER_ID'' of Some v \<Rightarrow> v | None \<Rightarrow> '''')
            else user_id cself)"
    by (simp_all add: config_post_init_base index_post_init_user_id environ_get_def)
  have same: "IndexConfiguration_init env (kw\<lparr>kw_user_id := Some ''''\<rparr>) =
           IndexConfiguration_init env (kw\<lparr>kw_user_id := None\<rparr>)"
    "Configuration_init p env (ckw\<lparr>kw_user_id := Some ''''\<rparr>) =
           Configuration_init p env (ckw\<lparr>kw_user_id := None\<rparr>)"
    by (simp_all add: IndexConfiguration_init_def Configuration_init_def
          IndexConfiguration_fields_def Configuration_fields_def)
  from at_index at_config passes same show ?thesis
    by blast
qed

text \<open>
  C6, as stated: after any construction every field holds the explicit value, else the
  value of its environment variable, else the built-in default, in that order of
  precedence. The code departs from this when the explicit value equals the default:
  with \<^verbatim>\<open>EMBEDDING_MODEL\<close> set, the explicit
  \<^verbatim>\<open>embedding_model="openai/text-embedding-3-small"\<close> is replaced by the
  environment's value.
\<close>

theorem precedence_as_stated_counterexample:
  "embedding_model
     (Configuration_init
        \<lparr>RESPONSE_SYSTEM_PROMPT = ''answer'', QUERY_SYSTEM_PROMPT = ''refine''\<rparr>
        test_environ
        ((no_kwargs :: nat Configuration_kwargs)
           \<lparr>kw_embedding_model := Some ''openai/text-embedding-3-small''\<rparr>))
   \<noteq> precedence_as_stated (Some ''openai/text-embedding-3-small'')
        (test_environ ''EMBEDDING_MODEL'') ''openai/text-embedding-3-small''"
  by (simp add: Configuration_init_def Configuration_fields_def no_kwargs_def post_init_fields
        environ_get_def test_environ_def precedence_as_stated_def)

text \<open>
  C6, amended: after any construction every field holds the explicit value, the value
  of its environment variable, or the built-in default. For the five environment-bound
  fields an explicit value that differs from the built-in default is kept; a field that
  is omitted or given its built-in default takes the value of its environment variable
  when that is set, and the built-in default otherwise. The other three fields hold the
  explicit value when given and the built-in default otherwise.
\<close>

theorem precedence_by_default_test_holds:
  fixes kw :: "'v Configuration_kwargs"
  shows "user_id (Configuration_init p env kw) =
           precedence_by_default_test (kw_user_id kw) (env ''USER_ID'') ''''
       \<and> embedding_model (Configuration_init p env kw) =
           precedence_by_default_test (kw_embedding_model kw) (env ''EMBEDDING_MODEL'')
             ''openai/text-embedding-3-small''
       \<and> retriever_provider (Configuration_init p env kw) =
           precedence_by_default_test (kw_retriever_provider kw) (env ''RETRIEVER_PROVIDER'')
             ''elastic''
       \<and> response_model (Configuration_init p env kw) =
           precedence_by_default_test (kw_response_model kw) (env ''RESPONSE_MODEL'')
             ''anthropic/claude-3-5-sonnet-20240620''
       \<and> query_model (Configuration_init p env kw) =
           precedence_by_default_test (kw_query_model kw) (env ''QUERY_MODEL'')
             ''anthropic/claude-3-haiku-20240307''
       \<and> search_kwargs (Configuration_init p env kw) =
           (case kw_search_kwargs kw of Some x \<Rightarrow> x | None \<Rightarrow> Map.empty)
       \<and> response_system_prompt (Configuration_init p env kw) =
           (case kw_response_system_prompt kw of Some x \<Rightarrow> x
            | None \<Rightarrow> RESPONSE_SYSTEM_PROMPT p)
       \<and> query_system_prompt (Configuration_init p env kw) =
           (case kw_query_system_prompt kw of Some x \<Rightarrow> x | None \<Rightarrow> QUERY_SYSTEM_PROMPT p)"
  by (simp add: Configuration_init_def Configuration_fields_def post_init_fields
        environ_get_def precedence_by_default_test_def split: option.splits)

text \<open>
  C7. \<^verbatim>\<open>IndexConfiguration()\<close> by itself, with no explicit field, in an environment
  that sets \<^verbatim>\<open>USER_ID\<close>, \<^verbatim>\<open>EMBEDDING_MODEL\<close> and \<^verbatim>\<open>RETRIEVER_PROVIDER\<close>,
  yields the three fields equal to the values of those variables.
\<close>

theorem index_configuration_honours_environment:
  assumes "env ''USER_ID'' = Some u"
    and "env ''EMBEDDING_MODEL'' = Some e"
    and "env ''RETRIEVER_PROVIDER'' = Some r"
  shows "user_id (IndexConfiguration_init env (no_index_kwargs :: 'v IndexConfiguration_kwargs)) = u
       \<and> embedding_model (IndexConfiguration_init env (no_index_kwargs :: 'v IndexConfiguration_kwargs)) = e
       \<and> retriever_provider (IndexConfiguration_init env (no_index_kwargs :: 'v IndexConfiguration_kwargs)) = r"
  using assms
  by (simp add: IndexConfiguration_init_def IndexConfiguration_fields_def no_index_kwargs_def
        post_init_fields environ_get_Some)

theorem index_configuration_honours_environment_witness:
  "(let c = IndexConfiguration_init test_index_environ
              (no_index_kwargs :: nat IndexConfiguration_kwargs)
    in test_index_environ ''USER_ID'' = Some ''index_user''
     \<and> test_index_environ ''EMBEDDING_MODEL'' = Some ''cohere/embed-english-v3.0''
     \<and> test_index_environ ''RETRIEVER_PROVIDER'' = Some ''mongodb''
     \<and> user_id c = ''index_user''
     \<and> embedding_model c = ''cohere/embed-english-v3.0''
     \<and> retriever_provider c = ''mongodb'')"
proof -
  have h: "test_index_environ ''USER_ID'' = Some ''index_user''"
    "test_index_environ ''EMBEDDING_MODEL'' = Some ''cohere/embed-english-v3.0''"
    "test_index_environ ''RETRIEVER_PROVIDER'' = Some ''mongodb''"
    by (simp_all add: test_index_environ_def)
  show ?thesis
    unfolding Let_def
    using h index_configuration_honours_environment [OF h, where ?'v = nat]
    by blast
qed

text \<open>
  C8. \<open>search_kwargs\<close>, \<open>response_system_prompt\<close> and \<open>query_system_prompt\<close> are never
  read from the environment: the defaulting pass returns them as constructed, so each
  is the explicit value when given and the built-in default otherwise (the empty
  dictionary, or the prompt constant), the same in every environment.
\<close>

theorem unbound_fields_ignore_environment:
  fixes self :: "'v Configuration" and kw :: "'v Configuration_kwargs"
  shows "search_kwargs (Configuration_post_init env self) = search_kwargs self
       \<and> response_system_prompt (Configuration_post_init env self) = response_system_prompt self
       \<and> query_system_prompt (Configuration_post_init env self) = query_system_prompt self
       \<and> search_kwargs (Configuration_init p env kw) =
           (case kw_search_kwargs kw of Some x \<Rightarrow> x | None \<Rightarrow> Map.empty)
       \<and> response_system_prompt (Configuration_init p env kw) =
           (case kw_response_system_prompt kw of Some x \<Rightarrow> x
            | None \<Rightarrow> RESPONSE_SYSTEM_PROMPT p)
       \<and> query_system_prompt (Configuration_init p env kw) =
           (case kw_query_system_prompt kw of Some x \<Rightarrow> x | None \<Rightarrow> QUERY_SYSTEM_PROMPT p)
       \<and> search_kwargs (Configuration_init p env kw) = search_kwargs (Configuration_init p env' kw)
       \<and> response_system_prompt (Configuration_init p env kw) =
           response_system_prompt (Configuration_init p env' kw)
       \<and> query_system_prompt (Configuration_init p env kw) =
           query_system_prompt (Configuration_init p env' kw)"
  by (simp add: Configuration_init_def Configuration_fields_def post_init_fields)

text \<open>
  C9. Construction never raises. Both constructors are total functions here because
  the source has no \<^verbatim>\<open>raise\<close> and calls nothing that raises on strings: there is no
  error branch to model. In particular a \<open>retriever_provider\<close> outside the
  \<^verbatim>\<open>Literal\<close> enumeration, whether passed explicitly or read from
  \<^verbatim>\<open>RETRIEVER_PROVIDER\<close>, is not rejected: it is the constructed object's
  \<open>retriever_provider\<close>, unchanged, in both classes.
\<close>

theorem retriever_provider_not_validated:
  fixes kw1 kw2 :: "'v IndexConfiguration_kwargs" and ckw1 ckw2 :: "'v Configuration_kwargs"
  assumes "r \<notin> set retriever_provider_literals"
  shows "(kw_retriever_provider kw1 = Some r \<longrightarrow>
            retriever_provider (IndexConfiguration_init env1 kw1) = r)
       \<and> (kw_retriever_provider ckw1 = Some r \<longrightarrow>
            retriever_provider (Configuration_init p env1 ckw1) = r)
       \<and> (kw_retriever_provider kw2 = None \<and> env2 ''RETRIEVER_PROVIDER'' = Some r \<longrightarrow>
            retriever_provider (IndexConfiguration_init env2 kw2) = r)
       \<and> (kw_retriever_provider ckw2 = None \<and> env2 ''RETRIEVER_PROVIDER'' = Some r \<longrightarrow>
            retriever_provider (Configuration_init p env2 ckw2) = r)"
proof -
  from assms have "r \<noteq> ''elastic''"
    by (auto simp add: retriever_provider_literals_def)
  then show ?thesis
    by (simp add: IndexConfiguration_init_def Configuration_init_def
          IndexConfiguration_fields_def Configuration_fields_def post_init_fields
          environ_get_Some)
qed

theorem retriever_provider_not_validated_witness:
  "(let p = \<lparr>RESPONSE_SYSTEM_PROMPT = ''answer'', QUERY_SYSTEM_PROMPT = ''refine''\<rparr>;
        kw1 = (no_index_kwargs :: nat IndexConfiguration_kwargs)
                \<lparr>kw_retriever_provider := Some ''chroma''\<rparr>;
        ckw1 = (no_kwargs :: nat Configuration_kwargs)
                \<lparr>kw_retriever_provider := Some ''chroma''\<rparr>;
        kw2 = (no_index_kwargs :: nat IndexConfiguration_kwargs);
        ckw2 = (no_kwargs :: nat Configuration_kwargs);
        env2 = test_environ(''RETRIEVER_PROVIDER'' \<mapsto> ''chroma'')
    in ''chroma'' \<notin> set retriever_provider_literals
     \<and> kw_retriever_provider kw1 = Some ''chroma''
     \<and> kw_retriever_provider ckw1 = Some ''chroma''
     \<and> kw_retriever_provider kw2 = None
     \<and> kw_retriever_provider ckw2 = None
     \<and> env2 ''RETRIEVER_PROVIDER'' = Some ''chroma''
     \<and> retriever_provider (IndexConfiguration_init test_environ kw1) = ''chroma''
     \<and> retriever_provider (Configuration_init p test_environ ckw1) = ''chroma''
     \<and> retriever_provider (IndexConfiguration_init env2 kw2) = ''chroma''
     \<and> retriever_provider (Configuration_init p env2 ckw2) = ''chroma'')"
proof -
  let ?p = "\<lparr>RESPONSE_SYSTEM_PROMPT = ''answer'', QUERY_SYSTEM_PROMPT = ''refine''\<rparr>"
  let ?kw1 = "(no_index_kwargs :: nat IndexConfiguration_kwargs)
                \<lparr>kw_retriever_provider := Some ''chroma''\<rparr>"
  let ?ckw1 = "(no_kwargs :: nat Configuration_kwargs)
                \<lparr>kw_retriever_provider := Some ''chroma''\<rparr>"
  let ?kw2 = "no_index_kwargs :: nat IndexConfiguration_kwargs"
  let ?ckw2 = "no_kwargs :: nat Configuration_kwargs"
  let ?env2 = "test_environ(''RETRIEVER_PROVIDER'' \<mapsto> ''chroma'')"
  have h: "''chroma'' \<notin> set retriever_provider_literals"
    by (simp add: retriever_provider_literals_def)
  have k: "kw_retriever_provider ?kw1 = Some ''chroma''"
    "kw_retriever_provider ?ckw1 = Some ''chroma''"
    "kw_retriever_provider ?kw2 = None"
    "kw_retriever_provider ?ckw2 = None"
    "?env2 ''RETRIEVER_PROVIDER'' = Some ''chroma''"
    by (simp_all add: no_index_kwargs_def no_kwargs_def)
  show ?thesis
    unfolding Let_def
    using h k retriever_provider_not_validated
      [OF h, of ?kw1 test_environ ?ckw1 ?p ?kw2 ?env2 ?ckw2]
    by blast
qed

text \<open>
  C10. For the same base-field arguments and the same environment, \<open>Configuration\<close>
  and \<open>IndexConfiguration\<close> construct the same \<open>user_id\<close>, \<open>embedding_model\<close>,
  \<open>retriever_provider\<close> (and \<open>search_kwargs\<close>), whatever the subclass's own arguments
  are: the base fields that the subclass's defaulting pass returns are those returned by the
  base class's pass, which it runs first on the same object.
\<close>

theorem subclass_agrees_on_base_fields:
  fixes s :: "(string \<rightharpoonup> 'v) option" and self :: "'v Configuration"
  shows "(let ikw = \<lparr>kw_user_id = u, kw_embedding_model = e, kw_retriever_provider = r,
                    kw_search_kwargs = s\<rparr>;
              ckw = \<lparr>kw_user_id = u, kw_embedding_model = e, kw_retriever_provider = r,
                    kw_search_kwargs = s, kw_response_system_prompt = rsp,
                    kw_response_model = rm, kw_query_system_prompt = qsp,
                    kw_query_model = qm\<rparr>
          in user_id (Configuration_init p env ckw) = user_id (IndexConfiguration_init env ikw)
           \<and> embedding_model (Configuration_init p env ckw) =
               embedding_model (IndexConfiguration_init env ikw)
           \<and> retriever_provider (Configuration_init p env ckw) =
               retriever_provider (IndexConfiguration_init env ikw)
           \<and> search_kwargs (Configuration_init p env ckw) =
               search_kwargs (IndexConfiguration_init env ikw))
       \<and> user_id (Configuration_post_init env self) =
           user_id (IndexConfiguration_post_init env self)
       \<and> embedding_model (Configuration_post_init env self) =
           embedding_model (IndexConfiguration_post_init env self)
       \<and> retriever_provider (Configuration_post_init env self) =
           retriever_provider (IndexConfiguration_post_init env self)
       \<and> search_kwargs (Configuration_post_init env self) =
           search_kwargs (IndexConfiguration_post_init env self)"
  by (simp add: Let_def IndexConfiguration_init_def Configuration_init_def
        IndexConfiguration_fields_def Configuration_fields_def post_init_fields)

end
